theory Spec2Isabelle
  imports Complex_Main
begin

section \<open>Python values: exceptions, indexing, range\<close>

text \<open>
  The exceptions of a run of \<^verbatim>\<open>app.py\<close>: the family
  \<^verbatim>\<open>requests.exceptions.RequestException\<close> (with the text of the exception), which
  \<^verbatim>\<open>fetch_tle\<close> catches; \<^verbatim>\<open>IndexError\<close>; and any other exception (a
  \<^verbatim>\<open>ValueError\<close> of the TLE parser, an error of the map widget, ...) with its text.
  Nothing in the file catches the last two kinds.
  A computation that may raise returns \<open>Inl\<close> of the exception, otherwise \<open>Inr\<close> of its value.
\<close>

datatype py_exception = RequestException string | IndexError | OtherException string

definition raises_or :: "py_exception + 'a \<Rightarrow> ('a \<Rightarrow> py_exception + 'b) \<Rightarrow> py_exception + 'b" where
  "raises_or m f = (case m of Inl e \<Rightarrow> Inl e | Inr x \<Rightarrow> f x)"

text \<open>
  \<^verbatim>\<open>xs[i]\<close> on a list or array of length \<open>n\<close>: an index in \<open>[-n, n)\<close> is read
  (a negative one from the end), any other raises \<^verbatim>\<open>IndexError\<close>.
\<close>

definition getitem :: "'a list \<Rightarrow> int \<Rightarrow> py_exception + 'a" where
  "getitem xs i =
     (if 0 \<le> i \<and> i < int (length xs) then Inr (xs ! nat i)
      else if i < 0 \<and> - int (length xs) \<le> i then Inr (xs ! nat (int (length xs) + i))
      else Inl IndexError)"

text \<open>
  \<^verbatim>\<open>range(start, stop, step)\<close> for a positive step, the only kind the program uses
  (\<^verbatim>\<open>range(0, len(events) - 2, 3)\<close>): \<open>start, start + step, ...\<close> while below \<open>stop\<close>.
\<close>

function py_range :: "int \<Rightarrow> int \<Rightarrow> int \<Rightarrow> int list" where
  "py_range start stop step =
     (if 0 < step \<and> start < stop then start # py_range (start + step) stop step else [])"
  by pat_completeness auto
termination
  by (relation "measure (\<lambda>(start, stop, step). nat (stop - start))") auto

declare py_range.simps [simp del]

text \<open>
  A \<^verbatim>\<open>for\<close> loop over a list of indices whose body updates a state and may raise:
  the first exception ends the loop.
\<close>

fun for_loop :: "('s \<Rightarrow> int \<Rightarrow> py_exception + 's) \<Rightarrow> int list \<Rightarrow> 's \<Rightarrow> py_exception + 's" where
  "for_loop body [] s = Inr s"
| "for_loop body (i # rest) s = raises_or (body s i) (for_loop body rest)"

section \<open>The pass calculator\<close>

text \<open>
  What \<^verbatim>\<open>calculate_passes\<close> asks of Skyfield, for a fixed satellite and observer.
  The type \<open>'t\<close> is Skyfield's \<^verbatim>\<open>Time\<close>, the type \<open>'f\<close> is Python's \<^verbatim>\<open>float\<close>:
  \<^item> \<open>utc_strftime t\<close> is \<^verbatim>\<open>t.utc_strftime('%Y-%m-%d %H:%M')\<close>;
  \<^item> \<open>altaz_degrees t\<close> is the pair \<^verbatim>\<open>(alt.degrees, az.degrees)\<close> of
    \<^verbatim>\<open>(iss - observer_location).at(t).altaz()\<close>;
  \<^item> \<open>time_sub a b\<close> is \<^verbatim>\<open>a - b\<close> on two times, a float number of days;
  \<^item> \<open>float_mul x k\<close> is \<^verbatim>\<open>x * k\<close> for a float \<open>x\<close> and an integer literal \<open>k\<close>;
  \<^item> \<open>format_1f x\<close> is the f-string \<^verbatim>\<open>f"{x:.1f}"\<close>.
\<close>

record ('t, 'f) skyfield =
  utc_strftime :: "'t \<Rightarrow> string"
  altaz_degrees :: "'t \<Rightarrow> 'f \<times> 'f"
  time_sub :: "'t \<Rightarrow> 't \<Rightarrow> 'f"
  float_mul :: "'f \<Rightarrow> int \<Rightarrow> 'f"
  format_1f :: "'f \<Rightarrow> string"

text \<open>
  One row of \<^verbatim>\<open>pass_data\<close>: the dictionary with the keys \<^verbatim>\<open>"Rise Time (UTC)"\<close>,
  \<^verbatim>\<open>"Max Altitude"\<close>, \<^verbatim>\<open>"Direction"\<close> and \<^verbatim>\<open>"Duration (min)"\<close>, every value a string.
\<close>

record pass_row =
  rise_time_utc :: string
  max_altitude :: string
  direction :: string
  duration_min :: string

text \<open>
  The degree sign that follows altitude and direction: the one character U+00B0
  (a character of a string is a code point below 256).
\<close>

definition degree_sign :: string where
  "degree_sign = [CHR 0xB0]"

text \<open>Lines 53 to 64: the row built from the three times of one accepted triple.\<close>

definition pass_record :: "('t, 'f) skyfield \<Rightarrow> 't \<Rightarrow> 't \<Rightarrow> 't \<Rightarrow> pass_row" where
  "pass_record sf rise_time culminate_time set_time =
     (let (alt, az) = altaz_degrees sf culminate_time;
          duration = float_mul sf (float_mul sf (time_sub sf set_time rise_time) 24) 60
      in \<lparr> rise_time_utc = utc_strftime sf rise_time,
           max_altitude = format_1f sf alt @ degree_sign,
           direction = format_1f sf az @ degree_sign,
           duration_min = format_1f sf duration \<rparr>)"

text \<open>
  Line 50, \<^verbatim>\<open>events[i]==0 and events[i+1]==1 and events[i+2]==2\<close>: Python's
  \<^verbatim>\<open>and\<close> evaluates its right operand only when the left one is true.
\<close>

definition is_pass_triple :: "int list \<Rightarrow> int \<Rightarrow> py_exception + bool" where
  "is_pass_triple events i =
     raises_or (getitem events i) (\<lambda>e0.
       if e0 \<noteq> 0 then Inr False
       else raises_or (getitem events (i + 1)) (\<lambda>e1.
         if e1 \<noteq> 1 then Inr False
         else raises_or (getitem events (i + 2)) (\<lambda>e2. Inr (e2 = 2))))"

text \<open>The body of the loop, lines 50 to 64: \<^verbatim>\<open>continue\<close> leaves \<^verbatim>\<open>pass_data\<close> as it is.\<close>

definition pass_step ::
  "('t, 'f) skyfield \<Rightarrow> 't list \<Rightarrow> int list \<Rightarrow> pass_row list \<Rightarrow> int \<Rightarrow> py_exception + pass_row list" where
  "pass_step sf times' events pass_data i =
     raises_or (is_pass_triple events i) (\<lambda>ok.
       if \<not> ok then Inr pass_data
       else raises_or (getitem times' i) (\<lambda>rise_time.
            raises_or (getitem times' (i + 1)) (\<lambda>culminate_time.
            raises_or (getitem times' (i + 2)) (\<lambda>set_time.
              Inr (pass_data @ [pass_record sf rise_time culminate_time set_time])))))"

text \<open>
  \<^verbatim>\<open>calculate_passes\<close> from line 48 on. The arguments \<open>times'\<close> (the source's
  \<^verbatim>\<open>times\<close>) and \<open>events\<close> are the two parallel sequences that \<^verbatim>\<open>iss.find_events\<close> returned on line 46; the result is the
  list of rows handed to \<^verbatim>\<open>pd.DataFrame\<close>, in the order of their \<^verbatim>\<open>append\<close>.
\<close>

definition calculate_passes ::
  "('t, 'f) skyfield \<Rightarrow> 't list \<Rightarrow> int list \<Rightarrow> py_exception + pass_row list" where
  "calculate_passes sf times' events =
     for_loop (pass_step sf times' events) (py_range 0 (int (length events) - 2) 3) []"

text \<open>
  The grouping that the loop performs, written without the loop: group \<open>j\<close> is the
  triple at the positions \<open>3j, 3j+1, 3j+2\<close>. \<open>accepted events j\<close> says that the codes of
  group \<open>j\<close> read \<open>0, 1, 2\<close>, and \<open>triple_row sf times' j\<close> is the row built from the
  three times of group \<open>j\<close>. Both are only used to state what the loop computes.
\<close>

definition accepted :: "int list \<Rightarrow> nat \<Rightarrow> bool" where
  "accepted events j \<longleftrightarrow>
     events ! (3 * j) = 0 \<and> events ! (3 * j + 1) = 1 \<and> events ! (3 * j + 2) = 2"

definition triple_row :: "('t, 'f) skyfield \<Rightarrow> 't list \<Rightarrow> nat \<Rightarrow> pass_row" where
  "triple_row sf times' j =
     pass_record sf (times' ! (3 * j)) (times' ! (3 * j + 1)) (times' ! (3 * j + 2))"

section \<open>The TLE fetcher\<close>

text \<open>
  What \<^verbatim>\<open>requests.get(tle_url, timeout=10)\<close> can do: raise an exception of the
  \<^verbatim>\<open>RequestException\<close> family (connection error, timeout, ...) with some text, or
  return a response. Of a response the program reads the status code and the text;
  \<open>http_error_text\<close> is the text of the \<^verbatim>\<open>HTTPError\<close> that
  \<^verbatim>\<open>raise_for_status\<close> builds when it raises.
\<close>

record http_response =
  status_code :: int
  http_error_text :: string
  response_text :: string

datatype get_outcome = GetRaised string | GetReturned http_response

definition requests_get :: "get_outcome \<Rightarrow> py_exception + http_response" where
  "requests_get outcome =
     (case outcome of GetRaised msg \<Rightarrow> Inl (RequestException msg) | GetReturned r \<Rightarrow> Inr r)"

text \<open>
  \<^verbatim>\<open>response.raise_for_status()\<close> raises \<^verbatim>\<open>HTTPError\<close>, a \<^verbatim>\<open>RequestException\<close>,
  for the client errors 400 to 499 and the server errors 500 to 599, and for no other status.
\<close>

definition raise_for_status :: "http_response \<Rightarrow> py_exception + unit" where
  "raise_for_status r =
     (if 400 \<le> status_code r \<and> status_code r < 600
      then Inl (RequestException (http_error_text r)) else Inr ())"

text \<open>
  Strings are lists of characters with code points below 256 (a TLE is ASCII).
  \<^verbatim>\<open>str.isspace\<close> on such a character: tab to carriage return, the separators
  U+001C to U+001F, the space, U+0085 and U+00A0. \<^verbatim>\<open>str.strip()\<close> removes the
  whitespace at both ends.
\<close>

definition py_isspace :: "char \<Rightarrow> bool" where
  "py_isspace c =
     (let n = (of_char c :: nat)
      in (9 \<le> n \<and> n \<le> 13) \<or> (28 \<le> n \<and> n \<le> 32) \<or> n = 133 \<or> n = 160)"

definition strip :: "string \<Rightarrow> string" where
  "strip s = rev (dropWhile py_isspace (rev (dropWhile py_isspace s)))"

text \<open>The separator \<^verbatim>\<open>'\r\n'\<close>: a carriage return and a line feed.\<close>

definition crlf :: string where
  "crlf = [CHR 0x0D, CHR 0x0A]"

text \<open>
  \<^verbatim>\<open>s.split('\r\n')\<close>: the text is cut at every carriage return that a line feed
  follows, scanning from the left; the pieces may be empty, and a text without the
  separator (the empty text too) gives one piece. \<open>cur\<close> is the piece being read, reversed.
\<close>

fun split_crlf_from :: "string \<Rightarrow> string \<Rightarrow> string list" where
  "split_crlf_from cur [] = [rev cur]"
| "split_crlf_from cur [c] = [rev (c # cur)]"
| "split_crlf_from cur (c # d # cs) =
     (if c = CHR 0x0D \<and> d = CHR 0x0A then rev cur # split_crlf_from [] cs
      else split_crlf_from (c # cur) (d # cs))"

definition split_crlf :: "string \<Rightarrow> string list" where
  "split_crlf s = split_crlf_from [] s"

text \<open>
  What the program shows or does, at the grain of the script's sections:
  \<open>Setup\<close> is lines 10 to 23 and 70 (page configuration, styling, title),
  \<open>StError\<close> is \<^verbatim>\<open>st.error\<close>, \<open>StStop\<close> is \<^verbatim>\<open>st.stop()\<close>,
  \<open>BuildSatellite\<close> is lines 77 and 78 with the name and the two element lines,
  \<open>LivePosition\<close> is lines 81 to 98, \<open>ChooseCity\<close> is lines 102 to 121,
  \<open>StDataframe\<close> is \<^verbatim>\<open>st.dataframe\<close> and \<open>StInfo\<close> is \<^verbatim>\<open>st.info\<close>.
\<close>

datatype effect =
    Setup
  | StError string
  | StStop
  | BuildSatellite string string string
  | LivePosition
  | ChooseCity string
  | StDataframe "pass_row list"
  | StInfo string

text \<open>The three values \<^verbatim>\<open>fetch_tle\<close> returns: each a string or \<^verbatim>\<open>None\<close>.\<close>

type_synonym tle = "string option \<times> string option \<times> string option"

text \<open>Lines 32 to 35, the body of the \<^verbatim>\<open>try\<close>.\<close>

definition fetch_tle_try :: "get_outcome \<Rightarrow> py_exception + tle" where
  "fetch_tle_try outcome =
     raises_or (requests_get outcome) (\<lambda>response.
     raises_or (raise_for_status response) (\<lambda>_.
       let tle_data = split_crlf (strip (response_text response))
       in raises_or (getitem tle_data 0) (\<lambda>l0.
          raises_or (getitem tle_data 1) (\<lambda>l1.
          raises_or (getitem tle_data 2) (\<lambda>l2.
            Inr (Some l0, Some l1, Some l2))))))"

text \<open>
  One execution of the body of \<^verbatim>\<open>fetch_tle\<close>: what it shows, and what it returns or
  raises. The \<^verbatim>\<open>except\<close> clause catches the \<^verbatim>\<open>RequestException\<close> family only.
  (The decorator \<^verbatim>\<open>st.cache_data(ttl=3600)\<close> replays a returned value for an hour;
  it is not part of this function.)
\<close>

definition fetch_tle :: "get_outcome \<Rightarrow> effect list \<times> (py_exception + tle)" where
  "fetch_tle outcome =
     (case fetch_tle_try outcome of
        Inl (RequestException e) \<Rightarrow>
          ([StError (''Error fetching TLE data: '' @ e)], Inr (None, None, None))
      | Inl e \<Rightarrow> ([], Inl e)
      | Inr t \<Rightarrow> ([], Inr t))"

section \<open>The script\<close>

text \<open>Python's truth value of a string or \<^verbatim>\<open>None\<close>, as \<^verbatim>\<open>all\<close> reads it on line 74.\<close>

definition truthy :: "string option \<Rightarrow> bool" where
  "truthy v = (case v of None \<Rightarrow> False | Some s \<Rightarrow> s \<noteq> [])"

text \<open>How a run of the script ends.\<close>

datatype finish = Completed | Stopped | Uncaught py_exception

text \<open>
  What can go wrong after line 75, outside the loop of \<^verbatim>\<open>calculate_passes\<close>: an
  exception while the satellite is built (lines 77 and 78: the lines are not a TLE),
  while the live position is computed and shown (lines 81 to 98: the metrics, the map),
  or while Skyfield searches the events (lines 42 to 46). \<open>None\<close> says that the part
  raises nothing in this run.
\<close>

record later_failures =
  satellite_raises :: "py_exception option"
  position_raises :: "py_exception option"
  find_events_raises :: "py_exception option"

definition no_failures :: later_failures where
  "no_failures = \<lparr> satellite_raises = None, position_raises = None, find_events_raises = None \<rparr>"

text \<open>
  Lines 77 to 129, run with the three fetched lines: \<open>before\<close> are the effects so far.
  An exception ends the run where it is raised.
\<close>

definition run_pipeline ::
  "('t, 'f) skyfield \<Rightarrow> later_failures \<Rightarrow> 't list \<Rightarrow> int list \<Rightarrow> string \<Rightarrow>
   string \<Rightarrow> string \<Rightarrow> string \<Rightarrow> effect list \<Rightarrow> effect list \<times> finish" where
  "run_pipeline sf later times' events selected_city name l1 l2 before =
     (case satellite_raises later of
        Some e \<Rightarrow> (before, Uncaught e)
      | None \<Rightarrow>
          (case position_raises later of
             Some e \<Rightarrow> (before @ [BuildSatellite name l1 l2], Uncaught e)
           | None \<Rightarrow>
               (let shown = before @
                      [BuildSatellite name l1 l2, LivePosition, ChooseCity selected_city]
                in case find_events_raises later of
                     Some e \<Rightarrow> (shown, Uncaught e)
                   | None \<Rightarrow>
                       (case calculate_passes sf times' events of
                          Inl e \<Rightarrow> (shown, Uncaught e)
                        | Inr pass_df \<Rightarrow>
                            if pass_df \<noteq> [] then (shown @ [StDataframe pass_df], Completed)
                            else (shown @
                                    [StInfo (''No visible ISS passes found for '' @ selected_city @
                                             '' in the next 5 days.'')], Completed)))))"

text \<open>
  One run of the script, lines 10 to 129: the effects in their order, and how the run
  ends. \<open>outcome\<close> is what the HTTP request does; \<open>later\<close> says what raises after
  line 75; \<open>sf\<close>, \<open>times'\<close> and \<open>events\<close> are what Skyfield answers for the satellite
  built from the fetched lines and the chosen city. Line 74 stops the run unless all
  three values are truthy; a value that is \<^verbatim>\<open>None\<close> is not, so the last case below is
  the same \<^verbatim>\<open>st.stop()\<close>.
\<close>

definition run_app ::
  "('t, 'f) skyfield \<Rightarrow> get_outcome \<Rightarrow> later_failures \<Rightarrow> 't list \<Rightarrow> int list \<Rightarrow> string \<Rightarrow>
   effect list \<times> finish" where
  "run_app sf outcome later times' events selected_city =
     (case fetch_tle outcome of
        (shown, Inl e) \<Rightarrow> (Setup # shown, Uncaught e)
      | (shown, Inr (iss_name, iss_l1, iss_l2)) \<Rightarrow>
          (case (iss_name, iss_l1, iss_l2) of
             (Some name, Some l1, Some l2) \<Rightarrow>
               if \<not> (truthy iss_name \<and> truthy iss_l1 \<and> truthy iss_l2)
               then (Setup # shown @ [StStop], Stopped)
               else run_pipeline sf later times' events selected_city name l1 l2 (Setup # shown)
           | _ \<Rightarrow> (Setup # shown @ [StStop], Stopped)))"

text \<open>
  A stand-in for Skyfield with natural numbers as times and integers as floats, for
  running the definitions on concrete inputs.
\<close>

definition stub_skyfield :: "(nat, int) skyfield" where
  "stub_skyfield =
     \<lparr> utc_strftime = (\<lambda>t. replicate t (CHR ''m'')),
       altaz_degrees = (\<lambda>t. (int t, 0)),
       time_sub = (\<lambda>a b. int a - int b),
       float_mul = (\<lambda>x k. x * k),
       format_1f = (\<lambda>x. if x < 0 then ''-'' else ''+'') \<rparr>"

section \<open>Python floats\<close>


text \<open>The number of bits of a positive integer.\<close>

function bit_length :: "int \<Rightarrow> nat" where
  "bit_length n = (if n \<le> 0 then 0 else Suc (bit_length (n div 2)))"
  by pat_completeness auto
termination
  by (relation "measure nat") auto

declare bit_length.simps [simp del]














section \<open>The loop of the pass calculator, group by group\<close>

lemma raises_or_Inr [simp]: "raises_or (Inr x) f = f x"
  by (simp add: raises_or_def)

lemma raises_or_Inl [simp]: "raises_or (Inl e) f = Inl e"
  by (simp add: raises_or_def)

lemma getitem_nat [simp]: "j < length xs \<Longrightarrow> getitem xs (int j) = Inr (xs ! j)"
  by (simp add: getitem_def)

lemma py_range_from:
  "a \<le> n div 3 \<Longrightarrow> py_range (3 * int a) (int n - 2) 3 = map (\<lambda>j. 3 * int j) [a..<n div 3]"
proof (induction "n div 3 - a" arbitrary: a)
  case 0
  then have "a = n div 3" by simp
  then have "\<not> 3 * int a < int n - 2" by linarith
  then show ?case using \<open>a = n div 3\<close> by (simp add: py_range.simps)
next
  case (Suc d)
  then have lt: "a < n div 3" by simp
  then have "3 * int a < int n - 2" by linarith
  moreover have "py_range (3 * int (Suc a)) (int n - 2) 3 = map (\<lambda>j. 3 * int j) [Suc a..<n div 3]"
    using Suc lt by (intro Suc.hyps(1)) auto
  moreover have "3 * int a + 3 = 3 * int (Suc a)" by simp
  ultimately show ?case using lt
    by (subst py_range.simps) (simp add: upt_conv_Cons del: of_nat_Suc)
qed

lemma py_range_triples:
  "py_range 0 (int n - 2) 3 = map (\<lambda>j. 3 * int j) [0..<n div 3]"
  using py_range_from [of 0 n] by simp

lemma for_loop_map:
  "(\<And>j acc. j \<in> set js \<Longrightarrow> body acc (f j) = Inr (acc @ out j)) \<Longrightarrow>
   for_loop body (map f js) acc = Inr (acc @ concat (map out js))"
  by (induction js arbitrary: acc) simp_all

lemma getitem_group:
  assumes "3 * j + 2 < length xs"
  shows "getitem xs (3 * int j) = Inr (xs ! (3 * j))"
    and "getitem xs (3 * int j + 1) = Inr (xs ! (3 * j + 1))"
    and "getitem xs (3 * int j + 2) = Inr (xs ! (3 * j + 2))"
proof -
  have "3 * int j = int (3 * j)" "3 * int j + 1 = int (3 * j + 1)"
    "3 * int j + 2 = int (3 * j + 2)"
    by simp_all
  moreover have "3 * j < length xs" "3 * j + 1 < length xs"
    using assms by simp_all
  ultimately show "getitem xs (3 * int j) = Inr (xs ! (3 * j))"
    and "getitem xs (3 * int j + 1) = Inr (xs ! (3 * j + 1))"
    and "getitem xs (3 * int j + 2) = Inr (xs ! (3 * j + 2))"
    using assms by (simp_all only: getitem_nat)
qed

lemma is_pass_triple_group:
  assumes "j < length events div 3"
  shows "is_pass_triple events (3 * int j) = Inr (accepted events j)"
proof -
  have "3 * j + 2 < length events"
    using assms by linarith
  note g = getitem_group [OF this]
  show ?thesis
    unfolding is_pass_triple_def accepted_def g raises_or_Inr by simp
qed

lemma pass_step_rejected:
  assumes "j < length events div 3" "\<not> accepted events j"
  shows "pass_step sf times' events acc (3 * int j) = Inr acc"
  using assms by (simp add: pass_step_def is_pass_triple_group)

lemma pass_step_accepted:
  assumes "j < length events div 3" "accepted events j" "length times' = length events"
  shows "pass_step sf times' events acc (3 * int j) = Inr (acc @ [triple_row sf times' j])"
proof -
  have "3 * j + 2 < length times'"
    using assms by linarith
  note g = getitem_group [OF this]
  show ?thesis
    unfolding pass_step_def is_pass_triple_group [OF assms(1)] g raises_or_Inr triple_row_def
    using assms(2) by simp
qed

lemma concat_map_if_filter:
  "concat (map (\<lambda>j. if P j then [g j] else []) js) = map g (filter P js)"
  by (induction js) simp_all

lemma calculate_passes_groups:
  assumes "length times' = length events"
  shows "calculate_passes sf times' events =
         Inr (map (triple_row sf times') (filter (accepted events) [0..<length events div 3]))"
proof -
  let ?out = "\<lambda>j. if accepted events j then [triple_row sf times' j] else []"
  have "for_loop (pass_step sf times' events) (map (\<lambda>j. 3 * int j) [0..<length events div 3]) [] =
        Inr ([] @ concat (map ?out [0..<length events div 3]))"
    using assms
    by (intro for_loop_map [where body = "pass_step sf times' events" and f = "\<lambda>j. 3 * int j" and out = ?out])
       (simp add: pass_step_rejected pass_step_accepted)
  then show ?thesis
    by (simp add: calculate_passes_def py_range_triples concat_map_if_filter)
qed

lemma calculate_passes_none:
  assumes "\<And>j. j < length events div 3 \<Longrightarrow> \<not> accepted events j"
  shows "calculate_passes sf times' events = Inr []"
proof -
  have "for_loop (pass_step sf times' events) (map (\<lambda>j. 3 * int j) [0..<length events div 3]) [] =
        Inr ([] @ concat (map (\<lambda>j. []) [0..<length events div 3]))"
    using assms
    by (intro for_loop_map [where body = "pass_step sf times' events" and f = "\<lambda>j. 3 * int j" and out = "\<lambda>j. []"])
       (simp add: pass_step_rejected)
  then show ?thesis
    by (simp add: calculate_passes_def py_range_triples)
qed

section \<open>Claims about the grouping of events\<close>

lemma pattern_accepted:
  "j < k \<Longrightarrow> accepted (concat (replicate k [0, 1, 2])) j"
proof (induction k arbitrary: j)
  case 0
  then show ?case by simp
next
  case (Suc k)
  show ?case
  proof (cases j)
    case 0
    then show ?thesis by (simp add: accepted_def)
  next
    case (Suc j')
    then have "accepted (concat (replicate k [0, 1, 2])) j'"
      using Suc.IH Suc.prems by simp
    then show ?thesis
      using Suc by (simp add: accepted_def)
  qed
qed

lemma pattern_length: "length (concat (replicate k [0, 1, 2 :: int])) = 3 * k"
  by (induction k) simp_all

text \<open>
  Claim C1. When the codes are the pattern \<open>0, 1, 2\<close> repeated \<open>k\<close> times (and there is
  one time per code), \<^verbatim>\<open>calculate_passes\<close> raises nothing and returns exactly \<open>k\<close>
  rows: row \<open>j\<close> is the row built from the times at the positions \<open>3j, 3j+1, 3j+2\<close>,
  so every triple is accepted and each row comes from one consecutive triple.
\<close>

theorem repeating_pattern_all_passes:
  assumes "events = concat (replicate k [0, 1, 2])"
    and "length times' = length events"
  shows "calculate_passes sf times' events =
         Inr (map (\<lambda>j. pass_record sf (times' ! (3 * j)) (times' ! (3 * j + 1)) (times' ! (3 * j + 2)))
                [0..<k])"
proof -
  have n: "length events div 3 = k"
    using assms(1) by (simp add: pattern_length)
  have "filter (accepted events) [0..<k] = [0..<k]"
    using assms(1) by (simp add: pattern_accepted)
  then show ?thesis
    using calculate_passes_groups [OF assms(2), of sf] n
    by (simp add: triple_row_def [abs_def])
qed

theorem repeating_pattern_all_passes_witness:
  "calculate_passes stub_skyfield [10, 11, 12, 20, 21, 22] [0, 1, 2, 0, 1, 2] =
     Inr [pass_record stub_skyfield 10 11 12, pass_record stub_skyfield 20 21 22]"
  using repeating_pattern_all_passes [of "[0, 1, 2, 0, 1, 2]" 2 "[10, 11, 12, 20, 21, 22]" stub_skyfield]
  by (simp add: numeral_2_eq_2 upt_rec)

lemma nat_group_index:
  "nat (3 * int j) = 3 * j" "nat (3 * int j + 1) = 3 * j + 1" "nat (3 * int j + 2) = 3 * j + 2"
  by (simp_all add: nat_add_distrib nat_mult_distrib)

lemma accepted_nat:
  "accepted events j \<longleftrightarrow>
     events ! nat (3 * int j) = 0 \<and> events ! nat (3 * int j + 1) = 1 \<and> events ! nat (3 * int j + 2) = 2"
  unfolding nat_group_index accepted_def by (rule refl)

lemma triple_row_nat:
  "triple_row sf times' j =
     pass_record sf (times' ! nat (3 * int j)) (times' ! nat (3 * int j + 1)) (times' ! nat (3 * int j + 2))"
  unfolding nat_group_index triple_row_def by (rule refl)

lemma set_py_range_triples:
  "set (py_range 0 (int n - 2) 3) = (\<lambda>j. 3 * int j) ` {..<n div 3}"
  by (simp add: py_range_triples atLeast0LessThan)

lemma accepted_take:
  assumes "j < n div 3"
  shows "accepted (take (3 * (n div 3)) events) j = accepted events j"
proof -
  have "3 * j + 2 < 3 * (n div 3)" using assms by linarith
  then show ?thesis by (simp add: accepted_def)
qed

lemma triple_row_take:
  assumes "j < n div 3"
  shows "triple_row sf (take (3 * (n div 3)) times') j = triple_row sf times' j"
proof -
  have "3 * j + 2 < 3 * (n div 3)" using assms by linarith
  then show ?thesis by (simp add: triple_row_def)
qed

text \<open>
  Claim C2. When the length of the event sequence is not a multiple of 3 (and there is
  one time per code), every index the loop visits leaves room for the whole triple
  (\<open>i\<close>, \<open>i + 1\<close> and \<open>i + 2\<close> are inside the sequence), \<^verbatim>\<open>calculate_passes\<close>
  returns rows and raises nothing (an index past the end would give \<open>Inl IndexError\<close>),
  and the rows are those of the sequence cut back to its complete groups: the
  trailing one or two events are dropped.
\<close>

theorem trailing_partial_group_dropped:
  assumes "length times' = length events"
    and "length events mod 3 \<noteq> 0"
  shows "(\<forall>i\<in>set (py_range 0 (int (length events) - 2) 3). 0 \<le> i \<and> i + 2 < int (length events)) \<and>
         (\<exists>rows. calculate_passes sf times' events = Inr rows \<and>
            calculate_passes sf (take (3 * (length events div 3)) times')
              (take (3 * (length events div 3)) events) = Inr rows)"
proof -
  have inside: "0 \<le> i \<and> i + 2 < int (length events)"
    if "i \<in> set (py_range 0 (int (length events) - 2) 3)" for i
  proof -
    from that obtain j where "j < length events div 3" "i = 3 * int j"
      unfolding set_py_range_triples by auto
    then show ?thesis by linarith
  qed
  let ?n = "length events"
  let ?m = "3 * (?n div 3)"
  have m: "?m \<le> ?n" by linarith
  have len: "length (take ?m times') = length (take ?m events)"
    using assms(1) by simp
  have d: "length (take ?m events) div 3 = ?n div 3"
    using m by simp
  have f: "filter (accepted (take ?m events)) [0..<?n div 3] = filter (accepted events) [0..<?n div 3]"
    by (rule filter_cong) (simp_all add: accepted_take)
  have "map (triple_row sf (take ?m times')) (filter (accepted events) [0..<?n div 3]) =
        map (triple_row sf times') (filter (accepted events) [0..<?n div 3])"
    by (rule map_cong) (simp_all add: triple_row_take)
  then have "calculate_passes sf (take ?m times') (take ?m events) =
             Inr (map (triple_row sf times') (filter (accepted events) [0..<?n div 3]))"
    unfolding calculate_passes_groups [OF len] d f by simp
  then show ?thesis
    using calculate_passes_groups [OF assms(1), of sf] inside by simp
qed

theorem trailing_partial_group_dropped_witness:
  "calculate_passes stub_skyfield [10, 11, 12, 20, 21] [0, 1, 2, 0, 1] =
     calculate_passes stub_skyfield [10, 11, 12] [0, 1, 2] \<and>
   calculate_passes stub_skyfield [10, 11, 12, 20, 21] [0, 1, 2, 0, 1] \<noteq> Inl IndexError"
  using trailing_partial_group_dropped [of "[10, 11, 12, 20, 21]" "[0, 1, 2, 0, 1]" stub_skyfield]
  by auto

text \<open>
  Claim C3. For every index \<open>i\<close> the loop visits, when the codes at \<open>i, i+1, i+2\<close>
  are not \<open>0, 1, 2\<close> in this order the body of the loop returns \<^verbatim>\<open>pass_data\<close>
  unchanged and raises nothing; and \<^verbatim>\<open>calculate_passes\<close> returns rows each of
  which is the row of a visited index whose codes are \<open>0, 1, 2\<close> in this order.
\<close>

theorem other_triples_skipped:
  assumes "length times' = length events"
  shows "(\<forall>i\<in>set (py_range 0 (int (length events) - 2) 3). \<forall>acc.
            \<not> (events ! nat i = 0 \<and> events ! nat (i + 1) = 1 \<and> events ! nat (i + 2) = 2) \<longrightarrow>
            pass_step sf times' events acc i = Inr acc) \<and>
         (\<exists>rows. calculate_passes sf times' events = Inr rows \<and>
            (\<forall>r\<in>set rows. \<exists>i\<in>set (py_range 0 (int (length events) - 2) 3).
               events ! nat i = 0 \<and> events ! nat (i + 1) = 1 \<and> events ! nat (i + 2) = 2 \<and>
               r = pass_record sf (times' ! nat i) (times' ! nat (i + 1)) (times' ! nat (i + 2))))"
proof (intro conjI ballI allI impI)
  fix i acc
  assume i: "i \<in> set (py_range 0 (int (length events) - 2) 3)"
    and no: "\<not> (events ! nat i = 0 \<and> events ! nat (i + 1) = 1 \<and> events ! nat (i + 2) = 2)"
  from i obtain j where j: "j < length events div 3" "i = 3 * int j"
    unfolding set_py_range_triples by auto
  from no have "\<not> accepted events j"
    unfolding accepted_nat j(2) .
  then show "pass_step sf times' events acc i = Inr acc"
    using j by (simp add: pass_step_rejected)
next
  let ?rows = "map (triple_row sf times') (filter (accepted events) [0..<length events div 3])"
  have "\<exists>i\<in>set (py_range 0 (int (length events) - 2) 3).
          events ! nat i = 0 \<and> events ! nat (i + 1) = 1 \<and> events ! nat (i + 2) = 2 \<and>
          r = pass_record sf (times' ! nat i) (times' ! nat (i + 1)) (times' ! nat (i + 2))"
    if "r \<in> set ?rows" for r
  proof -
    from that obtain j where j: "j < length events div 3" "accepted events j" "r = triple_row sf times' j"
      by auto
    have "3 * int j \<in> set (py_range 0 (int (length events) - 2) 3)"
      unfolding set_py_range_triples using j(1) by simp
    then show ?thesis
      using j(2,3) unfolding accepted_nat triple_row_nat by blast
  qed
  then show "\<exists>rows. calculate_passes sf times' events = Inr rows \<and>
            (\<forall>r\<in>set rows. \<exists>i\<in>set (py_range 0 (int (length events) - 2) 3).
               events ! nat i = 0 \<and> events ! nat (i + 1) = 1 \<and> events ! nat (i + 2) = 2 \<and>
               r = pass_record sf (times' ! nat i) (times' ! nat (i + 1)) (times' ! nat (i + 2)))"
    using calculate_passes_groups [OF assms, of sf] by blast
qed

theorem other_triples_skipped_witness:
  "pass_step stub_skyfield [10, 11, 12, 20, 21, 22] [1, 2, 0, 0, 1, 2] [] 0 = Inr [] \<and>
   calculate_passes stub_skyfield [10, 11, 12, 20, 21, 22] [1, 2, 0, 0, 1, 2] =
     Inr [pass_record stub_skyfield 20 21 22]"
proof -
  have c: "calculate_passes stub_skyfield [10, 11, 12, 20, 21, 22] [1, 2, 0, 0, 1, 2] =
     Inr [pass_record stub_skyfield 20 21 22]"
    by (simp add: calculate_passes_def py_range.simps pass_step_def is_pass_triple_def getitem_def)
  have "pass_step stub_skyfield [10, 11, 12, 20, 21, 22] [1, 2, 0, 0, 1, 2] [] 0 = Inr []"
    using other_triples_skipped [of "[10, 11, 12, 20, 21, 22]" "[1, 2, 0, 0, 1, 2]" stub_skyfield]
    by (simp add: py_range.simps)
  then show ?thesis using c by simp
qed

text \<open>
  Claim C5. When no triple the loop visits has the codes \<open>0, 1, 2\<close> (the empty
  sequence included: the loop then visits nothing), \<^verbatim>\<open>calculate_passes\<close> raises
  nothing and returns the empty list of rows, whatever the times are.
\<close>

theorem no_qualifying_triples_empty_result:
  assumes "\<forall>i\<in>set (py_range 0 (int (length events) - 2) 3).
             \<not> (events ! nat i = 0 \<and> events ! nat (i + 1) = 1 \<and> events ! nat (i + 2) = 2)"
  shows "calculate_passes sf times' events = Inr []"
proof (rule calculate_passes_none)
  fix j
  assume "j < length events div 3"
  then have "3 * int j \<in> set (py_range 0 (int (length events) - 2) 3)"
    unfolding set_py_range_triples by simp
  with assms show "\<not> accepted events j"
    unfolding accepted_nat by blast
qed

theorem no_qualifying_triples_empty_result_witness:
  "calculate_passes stub_skyfield [] [] = Inr [] \<and>
   calculate_passes stub_skyfield [10, 11, 12, 20] [1, 2, 0, 1] = Inr []"
  using no_qualifying_triples_empty_result [of "[]" stub_skyfield "[]"]
    no_qualifying_triples_empty_result [of "[1, 2, 0, 1]" stub_skyfield "[10, 11, 12, 20]"]
  by (simp add: py_range.simps)

text \<open>
  Claim C8. On the six events \<open>(t0,0), (t1,1), (t2,2), (t3,0), (t4,1), (t5,2)\<close> the
  result is exactly two rows, the first built from \<open>t0, t1, t2\<close> and the second from
  \<open>t3, t4, t5\<close>. In general (one time per code, and the times in chronological order,
  as the event finder returns them) the rows are those of groups \<open>js\<close> taken in
  increasing order, and each pass sets no later than the next one in the list rises.
\<close>

theorem passes_in_chronological_order:
  fixes times' :: "'t::linorder list"
  assumes "length times' = length events"
    and "sorted times'"
  shows "calculate_passes sf [t0, t1, t2, t3, t4, t5] [0, 1, 2, 0, 1, 2] =
           Inr [pass_record sf t0 t1 t2, pass_record sf t3 t4 t5] \<and>
         (\<exists>js. calculate_passes sf times' events =
                 Inr (map (\<lambda>j. pass_record sf (times' ! (3 * j)) (times' ! (3 * j + 1))
                                  (times' ! (3 * j + 2))) js) \<and>
               (\<forall>j\<in>set js. 3 * j + 2 < length times') \<and>
               sorted_wrt (<) js \<and>
               sorted_wrt (\<lambda>j j'. times' ! (3 * j + 2) \<le> times' ! (3 * j')) js)"
proof
  show "calculate_passes sf [t0, t1, t2, t3, t4, t5] [0, 1, 2, 0, 1, 2] =
           Inr [pass_record sf t0 t1 t2, pass_record sf t3 t4 t5]"
    by (simp add: calculate_passes_def py_range.simps pass_step_def is_pass_triple_def getitem_def)
next
  let ?n = "length events"
  let ?js = "filter (accepted events) [0..<?n div 3]"
  have in_range: "3 * j + 2 < length times'" if "j \<in> set ?js" for j
  proof -
    from that have "j < ?n div 3" by simp
    then show ?thesis using assms(1) by linarith
  qed
  have incr: "sorted_wrt (<) ?js"
    by (intro sorted_wrt_filter) simp
  have "times' ! (3 * j + 2) \<le> times' ! (3 * j')"
    if "j \<in> set ?js" "j' \<in> set ?js" "j < j'" for j j'
  proof -
    have "3 * j + 2 \<le> 3 * j'" using that(3) by linarith
    moreover have "3 * j' < length times'" using in_range [OF that(2)] by linarith
    ultimately show ?thesis using assms(2) by (simp add: sorted_nth_mono)
  qed
  then have chrono: "sorted_wrt (\<lambda>j j'. times' ! (3 * j + 2) \<le> times' ! (3 * j')) ?js"
    by (rule sorted_wrt_mono_rel [OF _ incr]) simp
  have "calculate_passes sf times' events =
          Inr (map (\<lambda>j. pass_record sf (times' ! (3 * j)) (times' ! (3 * j + 1))
                                  (times' ! (3 * j + 2))) ?js)"
    using calculate_passes_groups [OF assms(1), of sf] by (simp add: triple_row_def [abs_def])
  with in_range incr chrono
  show "\<exists>js. calculate_passes sf times' events =
                 Inr (map (\<lambda>j. pass_record sf (times' ! (3 * j)) (times' ! (3 * j + 1))
                                  (times' ! (3 * j + 2))) js) \<and>
               (\<forall>j\<in>set js. 3 * j + 2 < length times') \<and>
               sorted_wrt (<) js \<and>
               sorted_wrt (\<lambda>j j'. times' ! (3 * j + 2) \<le> times' ! (3 * j')) js"
    by blast
qed

theorem passes_in_chronological_order_witness:
  "calculate_passes stub_skyfield [10, 11, 12, 20, 21, 22] [0, 1, 2, 0, 1, 2] =
     Inr [pass_record stub_skyfield 10 11 12, pass_record stub_skyfield 20 21 22] \<and>
   (\<exists>js. calculate_passes stub_skyfield [1, 2, 3, 4, 5, 6, 7] [0, 1, 2, 1, 0, 1, 2] =
           Inr (map (\<lambda>j. pass_record stub_skyfield ([1, 2, 3, 4, 5, 6, 7] ! (3 * j))
                  ([1, 2, 3, 4, 5, 6, 7] ! (3 * j + 1)) ([1, 2, 3, 4, 5, 6, 7] ! (3 * j + 2))) js) \<and>
         sorted_wrt (<) js \<and>
         sorted_wrt (\<lambda>j j'. [1, 2, 3, 4, 5, 6, 7 :: nat] ! (3 * j + 2) \<le> [1, 2, 3, 4, 5, 6, 7] ! (3 * j')) js)"
proof -
  have "length [1, 2, 3, 4, 5, 6, 7 :: nat] = length [0, 1, 2, 1, 0, 1, 2 :: int]"
    by simp
  moreover have "sorted [1, 2, 3, 4, 5, 6, 7 :: nat]"
    by simp
  ultimately show ?thesis
    using passes_in_chronological_order [of "[1, 2, 3, 4, 5, 6, 7]" "[0, 1, 2, 1, 0, 1, 2]"
        stub_skyfield 10 11 12 20 21 22]
    by blast
qed

text \<open>
  Claim C10. The indices the loop visits are \<open>0, 3, 6, ...\<close>, fixed by the length of
  the event sequence alone, whatever the codes are. So on the codes
  \<open>1, 2, 0, 1, 2, 0\<close> no row is produced, although the codes at the positions
  2, 3 and 4 read \<open>0, 1, 2\<close>.
\<close>

theorem grouping_never_realigns:
  "py_range 0 (int (length events) - 2) 3 = map (\<lambda>j. 3 * int j) [0..<length events div 3] \<and>
   calculate_passes sf [t0, t1, t2, t3, t4, t5] [1, 2, 0, 1, 2, 0] = Inr [] \<and>
   [1, 2, 0, 1, 2, 0 :: int] ! 2 = 0 \<and> [1, 2, 0, 1, 2, 0 :: int] ! 3 = 1 \<and>
   [1, 2, 0, 1, 2, 0 :: int] ! 4 = 2"
proof -
  have "calculate_passes sf [t0, t1, t2, t3, t4, t5] [1, 2, 0, 1, 2, 0] = Inr []"
    by (simp add: calculate_passes_def py_range.simps pass_step_def is_pass_triple_def getitem_def)
  then show ?thesis
    by (simp add: py_range_triples)
qed

theorem grouping_never_realigns_witness:
  "py_range 0 (int (length [1, 2, 0, 1, 2, 0 :: int]) - 2) 3 = [0, 3] \<and>
   calculate_passes stub_skyfield [10, 11, 12, 13, 14, 15] [1, 2, 0, 1, 2, 0] = Inr []"
  using grouping_never_realigns [of "[1, 2, 0, 1, 2, 0]" stub_skyfield 10 11 12 13 14 15]
  by (simp add: upt_rec numeral_2_eq_2)

section \<open>Claims about the duration\<close>

text \<open>
  The error of one rounding: of the bit count, of the nearest integer, of a rounded
  product and of the printed tenths.
\<close>

lemma bit_length_nonpos [simp]: "n \<le> 0 \<Longrightarrow> bit_length n = 0"
  by (subst bit_length.simps) simp
















section \<open>Claims about the TLE fetcher and the script\<close>

lemma fetch_tle_try_raised [simp]:
  "fetch_tle_try (GetRaised msg) = Inl (RequestException msg)"
  by (simp add: fetch_tle_try_def requests_get_def)

lemma fetch_tle_try_error_status:
  "400 \<le> status_code r \<and> status_code r < 600 \<Longrightarrow>
   fetch_tle_try (GetReturned r) = Inl (RequestException (http_error_text r))"
  by (simp add: fetch_tle_try_def requests_get_def raise_for_status_def)

lemma fetch_tle_try_ok_status:
  "\<not> (400 \<le> status_code r \<and> status_code r < 600) \<Longrightarrow>
   fetch_tle_try (GetReturned r) =
     (let tle_data = split_crlf (strip (response_text r))
      in raises_or (getitem tle_data 0) (\<lambda>l0.
         raises_or (getitem tle_data 1) (\<lambda>l1.
         raises_or (getitem tle_data 2) (\<lambda>l2.
           Inr (Some l0, Some l1, Some l2)))))"
  by (auto simp: fetch_tle_try_def requests_get_def raise_for_status_def)

lemma run_app_null_triple:
  "fetch_tle outcome = (shown, Inr (None, None, None)) \<Longrightarrow>
   run_app sf outcome later times' events city = (Setup # shown @ [StStop], Stopped)"
  by (simp add: run_app_def)

lemma run_app_raised:
  "fetch_tle outcome = (shown, Inl e) \<Longrightarrow>
   run_app sf outcome later times' events city = (Setup # shown, Uncaught e)"
  by (simp add: run_app_def)

lemma getitem_short:
  assumes "length xs < 3"
  shows "raises_or (getitem xs 0) (\<lambda>l0. raises_or (getitem xs 1) (\<lambda>l1.
           raises_or (getitem xs 2) (\<lambda>l2. Inr (Some l0, Some l1, Some l2)))) = Inl IndexError"
  using assms by (auto simp: getitem_def)

text \<open>
  Claim C6, as amended. When the request raises (a network failure) or the response has a status
  for which \<^verbatim>\<open>raise_for_status\<close> raises (400 to 599), \<^verbatim>\<open>fetch_tle\<close> shows one
  error and returns \<^verbatim>\<open>(None, None, None)\<close> instead of raising, and the script ends at
  \<^verbatim>\<open>st.stop()\<close>: no satellite is built, no position is shown, no pass is calculated.
\<close>

theorem fetch_failure_null_triple_and_stop:
  assumes "outcome = GetRaised msg \<or>
           (outcome = GetReturned r \<and> 400 \<le> status_code r \<and> status_code r < 600)"
  shows "\<exists>shown. fetch_tle outcome = ([StError shown], Inr (None, None, None)) \<and>
           run_app sf outcome later times' events city = ([Setup, StError shown, StStop], Stopped)"
proof -
  from assms obtain e where "fetch_tle_try outcome = Inl (RequestException e)"
    using fetch_tle_try_error_status by auto
  then have f: "fetch_tle outcome = ([StError (''Error fetching TLE data: '' @ e)], Inr (None, None, None))"
    by (simp add: fetch_tle_def)
  from run_app_null_triple [OF f] f show ?thesis
    by simp
qed

theorem fetch_failure_null_triple_and_stop_witness:
  "fetch_tle (GetReturned \<lparr>status_code = 404, http_error_text = ''404 Client Error'',
       response_text = ''Not found''\<rparr>) =
     ([StError ''Error fetching TLE data: 404 Client Error''], Inr (None, None, None)) \<and>
   run_app stub_skyfield (GetRaised ''timed out'') no_failures [10, 11, 12] [0, 1, 2] ''Rourkela'' =
     ([Setup, StError ''Error fetching TLE data: timed out'', StStop], Stopped)"
proof -
  let ?r = "\<lparr>status_code = 404, http_error_text = ''404 Client Error'', response_text = ''Not found''\<rparr>"
  have "\<exists>shown. fetch_tle (GetReturned ?r) = ([StError shown], Inr (None, None, None)) \<and>
           run_app stub_skyfield (GetReturned ?r) no_failures [] [] [] = ([Setup, StError shown, StStop], Stopped)"
    by (rule fetch_failure_null_triple_and_stop [where r = ?r and msg = "[]"]) simp
  moreover have "\<exists>shown. fetch_tle (GetRaised ''timed out'') = ([StError shown], Inr (None, None, None)) \<and>
           run_app stub_skyfield (GetRaised ''timed out'') no_failures [10, 11, 12] [0, 1, 2] ''Rourkela'' =
             ([Setup, StError shown, StStop], Stopped)"
    by (rule fetch_failure_null_triple_and_stop [where r = ?r and msg = "''timed out''"]) simp
  ultimately show ?thesis
    by (auto simp: fetch_tle_def fetch_tle_try_def requests_get_def raise_for_status_def)
qed

text \<open>
  Claim C6 as stated fails for a status that is not a success and not in 400 to 599:
  \<^verbatim>\<open>raise_for_status\<close> lets it pass. A 304 with an empty body makes \<^verbatim>\<open>fetch_tle\<close>
  raise \<^verbatim>\<open>IndexError\<close> instead of returning the null triple, and after a 300 with
  three lines the satellite is built and the rest of the script runs.
\<close>

theorem fetch_other_status_counterexample:
  "fetch_tle (GetReturned \<lparr>status_code = 304, http_error_text = [], response_text = []\<rparr>) =
     ([], Inl IndexError) \<and>
   run_app stub_skyfield
     (GetReturned \<lparr>status_code = 300, http_error_text = [],
        response_text = ''A'' @ crlf @ ''B'' @ crlf @ ''C''\<rparr>)
     no_failures [10, 11, 12] [0, 1, 2] ''Rourkela'' =
     ([Setup, BuildSatellite ''A'' ''B'' ''C'', LivePosition, ChooseCity ''Rourkela'',
       StDataframe [pass_record stub_skyfield 10 11 12]], Completed)"
  by (simp add: fetch_tle_def fetch_tle_try_ok_status getitem_def crlf_def strip_def py_isspace_def
      split_crlf_def run_app_def run_pipeline_def no_failures_def truthy_def calculate_passes_def
      py_range.simps pass_step_def is_pass_triple_def)

text \<open>
  Claim C7, as amended. For a response whose status is outside 400 to 599 and whose text,
  after \<^verbatim>\<open>strip()\<close>, splits at CRLF into at least three pieces, \<^verbatim>\<open>fetch_tle\<close>
  shows nothing and returns the first three pieces unchanged.
\<close>

theorem fetch_success_three_lines:
  assumes "\<not> (400 \<le> status_code r \<and> status_code r < 600)"
    and "split_crlf (strip (response_text r)) = l0 # l1 # l2 # rest"
  shows "fetch_tle (GetReturned r) = ([], Inr (Some l0, Some l1, Some l2))"
  using assms by (simp add: fetch_tle_def fetch_tle_try_ok_status getitem_def)

theorem fetch_success_three_lines_witness:
  "fetch_tle (GetReturned \<lparr>status_code = 200, http_error_text = [],
       response_text = ''ISS (ZARYA)  '' @ crlf @ ''1 25544U'' @ crlf @ ''2 25544'' @ crlf\<rparr>) =
     ([], Inr (Some ''ISS (ZARYA)  '', Some ''1 25544U'', Some ''2 25544''))"
  by (rule fetch_success_three_lines [where rest = "[]"])
     (simp_all add: crlf_def strip_def py_isspace_def split_crlf_def)

text \<open>
  Claim C7 as stated fails for some successful responses. A response with status 200
  and the one-line text \<open>ISS (ZARYA)\<close> makes \<^verbatim>\<open>fetch_tle\<close> raise \<^verbatim>\<open>IndexError\<close>,
  so no three lines are returned; and for a text that starts with a space the first
  line of the text is \<open>" A"\<close> while the name returned is \<open>"A"\<close>.
\<close>

theorem fetch_three_lines_verbatim_counterexample:
  "\<not> (400 \<le> status_code \<lparr>status_code = 200, http_error_text = [], response_text = ''ISS (ZARYA)''\<rparr> \<and>
       status_code \<lparr>status_code = 200, http_error_text = [], response_text = ''ISS (ZARYA)''\<rparr> < 600) \<and>
   fetch_tle (GetReturned \<lparr>status_code = 200, http_error_text = [], response_text = ''ISS (ZARYA)''\<rparr>) =
     ([], Inl IndexError) \<and>
   split_crlf ('' A'' @ crlf @ ''B'' @ crlf @ ''C'') = ['' A'', ''B'', ''C''] \<and>
   fetch_tle (GetReturned \<lparr>status_code = 200, http_error_text = [],
       response_text = '' A'' @ crlf @ ''B'' @ crlf @ ''C''\<rparr>) =
     ([], Inr (Some ''A'', Some ''B'', Some ''C''))"
  by (simp add: fetch_tle_def fetch_tle_try_ok_status getitem_def crlf_def strip_def py_isspace_def split_crlf_def)

text \<open>
  Claim C9. When the request succeeds (status outside 400 to 599) and the stripped text
  splits at CRLF into fewer than three pieces, \<^verbatim>\<open>fetch_tle\<close> shows nothing and
  raises \<^verbatim>\<open>IndexError\<close> instead of returning the null triple; nothing catches it,
  and the script ends with this exception right after its setup.
\<close>

theorem short_body_raises_index_error:
  assumes "\<not> (400 \<le> status_code r \<and> status_code r < 600)"
    and "length (split_crlf (strip (response_text r))) < 3"
  shows "fetch_tle (GetReturned r) = ([], Inl IndexError) \<and>
         run_app sf (GetReturned r) later times' events city = ([Setup], Uncaught IndexError)"
proof -
  have "fetch_tle_try (GetReturned r) = Inl IndexError"
    using assms by (simp add: fetch_tle_try_ok_status getitem_short)
  then have f: "fetch_tle (GetReturned r) = ([], Inl IndexError)"
    by (simp add: fetch_tle_def)
  from run_app_raised [OF f] f show ?thesis by simp
qed

theorem short_body_raises_index_error_witness:
  "fetch_tle (GetReturned \<lparr>status_code = 200, http_error_text = [], response_text = []\<rparr>) =
     ([], Inl IndexError) \<and>
   run_app stub_skyfield (GetReturned \<lparr>status_code = 200, http_error_text = [],
       response_text = ''ISS'' @ [CHR 0x0A] @ ''1 25544U'' @ [CHR 0x0A] @ ''2 25544'' @ [CHR 0x0A]\<rparr>)
     no_failures [10, 11, 12] [0, 1, 2] ''Rourkela'' = ([Setup], Uncaught IndexError)"
proof -
  let ?empty = "\<lparr>status_code = 200, http_error_text = [], response_text = []\<rparr>"
  let ?lf = "\<lparr>status_code = 200, http_error_text = [],
       response_text = ''ISS'' @ [CHR 0x0A] @ ''1 25544U'' @ [CHR 0x0A] @ ''2 25544'' @ [CHR 0x0A]\<rparr>"
  have "fetch_tle (GetReturned ?empty) = ([], Inl IndexError) \<and>
        run_app stub_skyfield (GetReturned ?empty) no_failures [] [] [] = ([Setup], Uncaught IndexError)"
    by (rule short_body_raises_index_error) (simp_all add: strip_def split_crlf_def)
  moreover have "fetch_tle (GetReturned ?lf) = ([], Inl IndexError) \<and>
        run_app stub_skyfield (GetReturned ?lf) no_failures [10, 11, 12] [0, 1, 2] ''Rourkela'' = ([Setup], Uncaught IndexError)"
    by (rule short_body_raises_index_error) (simp_all add: strip_def split_crlf_def py_isspace_def)
  ultimately show ?thesis by simp
qed

end
